theory Spec2Isabelle
  imports Main "HOL-Library.Char_ord" "HOL-Library.List_Lexorder" "HOL-Library.Option_ord"
    "HOL-Library.Multiset" "HOL-Library.Word"
begin

section \<open>Request values\<close>

text \<open>
  The values a field of \<^verbatim>\<open>req.body\<close> holds after the JSON body parser, as far as they
  are modelled. A text field holds null, a boolean, a number or a string. A character
  is a UTF-16 code unit below 256, so \<open>length\<close> is JavaScript's \<^verbatim>\<open>.length\<close> and the
  order of the characters is the order in which the store compares strings. A number is
  an integer of JavaScript's safe range, a sign and a magnitude below \<open>2 ^ 53\<close>: those
  are the integers a double holds exactly and \<^verbatim>\<open>toString\<close> prints in plain decimal.
  A list field holds one such value or an array of them.

  Values that the schema answers with a cast error (an array where the schema has
  text, an array inside an array, an object) are outside the model, as are fractional
  and larger numbers and code units from 256 on.
\<close>

datatype json = JNull | JBool bool | JNum bool "53 word" | JStr string

datatype jlist = JOne json | JArr "json list"

text \<open>
  The fields of the body that the handlers read. A field that the body does not carry
  reads as \<^verbatim>\<open>undefined\<close>, here \<open>None\<close>.
\<close>

record body =
  req_title :: "json option"
  req_description :: "json option"
  req_category :: "json option"
  req_technologies :: "jlist option"
  req_highlights :: "jlist option"
  req_image :: "json option"
  req_github :: "json option"
  req_live :: "json option"
  req_impact :: "json option"

text \<open>The empty body \<^verbatim>\<open>{}\<close>.\<close>

definition no_fields :: body where
  "no_fields =
     \<lparr>req_title = None, req_description = None, req_category = None, req_technologies = None,
      req_highlights = None, req_image = None, req_github = None, req_live = None,
      req_impact = None\<rparr>"

text \<open>
  JavaScript truthiness: \<^verbatim>\<open>null\<close>, \<^verbatim>\<open>false\<close>, \<^verbatim>\<open>0\<close>, \<^verbatim>\<open>-0\<close> and \<^verbatim>\<open>""\<close> are falsy, every
  array is truthy.
\<close>

fun truthy :: "json \<Rightarrow> bool" where
  "truthy JNull = False"
| "truthy (JBool b) = b"
| "truthy (JNum neg m) = (m \<noteq> 0)"
| "truthy (JStr s) = (s \<noteq> [])"

fun truthy_list :: "jlist \<Rightarrow> bool" where
  "truthy_list (JOne v) = truthy v"
| "truthy_list (JArr xs) = True"

text \<open>Truthiness of a possibly absent field; \<^verbatim>\<open>undefined\<close> is falsy.\<close>

definition is_truthy :: "json option \<Rightarrow> bool" where
  "is_truthy v = (case v of None \<Rightarrow> False | Some x \<Rightarrow> truthy x)"

definition is_truthy_list :: "jlist option \<Rightarrow> bool" where
  "is_truthy_list v = (case v of None \<Rightarrow> False | Some x \<Rightarrow> truthy_list x)"

text \<open>\<^verbatim>\<open>x || null\<close>\<close>

definition or_null :: "json option \<Rightarrow> json" where
  "or_null v = (case v of None \<Rightarrow> JNull | Some x \<Rightarrow> if truthy x then x else JNull)"

text \<open>
  A field read where the handler has already found it truthy, or where \<^verbatim>\<open>undefined\<close>
  and \<^verbatim>\<open>null\<close> mean the same to the schema (no value).
\<close>

definition value_of :: "json option \<Rightarrow> json" where
  "value_of v = (case v of None \<Rightarrow> JNull | Some x \<Rightarrow> x)"

text \<open>\<^verbatim>\<open>Array.isArray(x) ? x : [x]\<close>\<close>

fun to_array :: "jlist \<Rightarrow> json list" where
  "to_array (JArr xs) = xs"
| "to_array (JOne v) = [v]"

text \<open>The same on a possibly absent field; \<^verbatim>\<open>[undefined]\<close> holds no value.\<close>

definition array_of :: "jlist option \<Rightarrow> json list" where
  "array_of v = (case v of None \<Rightarrow> [JNull] | Some x \<Rightarrow> to_array x)"

section \<open>Schema types: casting and setters\<close>

fun digits :: "nat \<Rightarrow> string" where
  "digits n = (if n < 10 then [''0123456789'' ! n]
               else digits (n div 10) @ [''0123456789'' ! (n mod 10)])"

declare digits.simps [simp del]

text \<open>\<^verbatim>\<open>toString\<close> of a safe integer; \<^verbatim>\<open>-0\<close> prints as \<^verbatim>\<open>0\<close>.\<close>

definition number_toString :: "bool \<Rightarrow> 53 word \<Rightarrow> string" where
  "number_toString neg m =
     (if neg \<and> m \<noteq> 0 then CHR ''-'' # digits (unat m) else digits (unat m))"

text \<open>
  The schema type \<^verbatim>\<open>String\<close>: null stays null, a string is kept, a number or boolean is
  printed.
\<close>

fun castString :: "json \<Rightarrow> string option" where
  "castString JNull = None"
| "castString (JStr s) = Some s"
| "castString (JNum neg m) = Some (number_toString neg m)"
| "castString (JBool b) = Some (if b then ''true'' else ''false'')"

text \<open>The schema type \<^verbatim>\<open>[String]\<close>: every element is cast.\<close>

definition castStringArray :: "json list \<Rightarrow> string option list" where
  "castStringArray vs = map castString vs"

text \<open>
  \<^verbatim>\<open>trim: true\<close> on the title is \<^verbatim>\<open>String.prototype.trim\<close>: white space and line
  terminators are removed at both ends. Below 256 those are the code units 9 to 13, 32
  and 160.
\<close>

definition is_space :: "char \<Rightarrow> bool" where
  "is_space c = (c \<in> set [CHR 0x09, CHR 0x0A, CHR 0x0B, CHR 0x0C, CHR 0x0D, CHR 0x20, CHR 0xA0])"

definition trim :: "string \<Rightarrow> string" where
  "trim s = rev (dropWhile is_space (rev (dropWhile is_space s)))"

section \<open>The Project document\<close>

text \<open>
  Time stamps are milliseconds; \<open>oid\<close> is the document's \<^verbatim>\<open>_id\<close>, read as a number.
  A text field that is null or was never set is \<open>None\<close>.
\<close>

record project =
  oid :: nat
  title :: "string option"
  description :: "string option"
  category :: "string option"
  technologies :: "string option list"
  highlights :: "string option list"
  image_url :: "string option"
  github :: "string option"
  live :: "string option"
  impact :: "string option"
  createdAt :: nat
  updatedAt :: nat

text \<open>Assignment to each path of a document: the value is cast, the title also trimmed.\<close>

definition set_title :: "json \<Rightarrow> project \<Rightarrow> project" where
  "set_title v p = p\<lparr>title := map_option trim (castString v)\<rparr>"

definition set_description :: "json \<Rightarrow> project \<Rightarrow> project" where
  "set_description v p = p\<lparr>description := castString v\<rparr>"

definition set_category :: "json \<Rightarrow> project \<Rightarrow> project" where
  "set_category v p = p\<lparr>category := castString v\<rparr>"

definition set_technologies :: "json list \<Rightarrow> project \<Rightarrow> project" where
  "set_technologies vs p = p\<lparr>technologies := castStringArray vs\<rparr>"

definition set_highlights :: "json list \<Rightarrow> project \<Rightarrow> project" where
  "set_highlights vs p = p\<lparr>highlights := castStringArray vs\<rparr>"

definition set_image :: "json \<Rightarrow> project \<Rightarrow> project" where
  "set_image v p = p\<lparr>image_url := castString v\<rparr>"

definition set_github :: "json \<Rightarrow> project \<Rightarrow> project" where
  "set_github v p = p\<lparr>github := castString v\<rparr>"

definition set_live :: "json \<Rightarrow> project \<Rightarrow> project" where
  "set_live v p = p\<lparr>live := castString v\<rparr>"

definition set_impact :: "json \<Rightarrow> project \<Rightarrow> project" where
  "set_impact v p = p\<lparr>impact := castString v\<rparr>"

section \<open>Schema validators\<close>

definition categories :: "string list" where
  "categories = [''AI/Computer Vision'', ''Data Analytics'', ''NLP/AI'', ''Security/Mobile'', ''Web Development'']"

definition starts_with :: "string \<Rightarrow> string \<Rightarrow> bool" where
  "starts_with pre s = (take (length pre) s = pre)"

text \<open>\<^verbatim>\<open>/^https?:\/\/(www\.)?github\.com\//.test(v)\<close>: the two optional groups, tried both ways.\<close>

definition github_regex_test :: "string \<Rightarrow> bool" where
  "github_regex_test v =
     list_ex (\<lambda>s. list_ex (\<lambda>w. starts_with (''http'' @ s @ ''://'' @ w @ ''github.com/'') v) ['''', ''www.''])
       ['''', ''s'']"

text \<open>\<^verbatim>\<open>/^https?:\/\//.test(v)\<close>\<close>

definition url_regex_test :: "string \<Rightarrow> bool" where
  "url_regex_test v = list_ex (\<lambda>s. starts_with (''http'' @ s @ ''://'') v) ['''', ''s'']"

text \<open>
  One function per path: the message of the first validator that fails, or \<open>None\<close>.
  \<^verbatim>\<open>required\<close> comes first and rejects null and the empty string; on an array path it
  accepts every array. The length, enum and custom validators follow.
\<close>

definition check_title :: "project \<Rightarrow> string option" where
  "check_title p =
     (case title p of
        None \<Rightarrow> Some ''Please provide a project title''
      | Some s \<Rightarrow> if s = [] then Some ''Please provide a project title''
                  else if 200 < length s then Some ''Title cannot exceed 200 characters''
                  else None)"

definition check_description :: "project \<Rightarrow> string option" where
  "check_description p =
     (case description p of
        None \<Rightarrow> Some ''Please provide a description''
      | Some s \<Rightarrow> if s = [] then Some ''Please provide a description''
                  else if 2000 < length s then Some ''Description cannot exceed 2000 characters''
                  else None)"

definition check_category :: "project \<Rightarrow> string option" where
  "check_category p =
     (case category p of
        None \<Rightarrow> Some ''Please select a category''
      | Some s \<Rightarrow> if s = [] then Some ''Please select a category''
                  else if s \<notin> set categories then Some (s @ '' is not a valid category'')
                  else None)"

definition check_technologies :: "project \<Rightarrow> string option" where
  "check_technologies p =
     (if 0 < length (technologies p) then None else Some ''Technologies array cannot be empty'')"

definition check_highlights :: "project \<Rightarrow> string option" where
  "check_highlights p =
     (if 0 < length (highlights p) then None else Some ''Add at least one highlight'')"

definition check_image :: "project \<Rightarrow> string option" where
  "check_image p = None"

definition check_github :: "project \<Rightarrow> string option" where
  "check_github p =
     (case github p of
        None \<Rightarrow> None
      | Some v \<Rightarrow> if v = [] then None
                  else if github_regex_test v then None
                  else Some ''Please provide a valid GitHub URL'')"

definition check_live :: "project \<Rightarrow> string option" where
  "check_live p =
     (case live p of
        None \<Rightarrow> None
      | Some v \<Rightarrow> if v = [] then None
                  else if url_regex_test v then None
                  else Some ''Please provide a valid URL'')"

definition check_impact :: "project \<Rightarrow> string option" where
  "check_impact p =
     (case impact p of
        None \<Rightarrow> None
      | Some s \<Rightarrow> if 500 < length s then Some ''Impact description cannot exceed 500 characters''
                  else None)"

text \<open>The errors of a ValidationError are keyed by path, as in \<^verbatim>\<open>error.errors\<close>.\<close>

type_synonym errs = "(string \<times> string) list"

definition path_error :: "project \<Rightarrow> string \<Rightarrow> (project \<Rightarrow> string option) \<Rightarrow> errs" where
  "path_error p path check = (case check p of None \<Rightarrow> [] | Some m \<Rightarrow> [(path, m)])"

text \<open>Validation of a whole document: the \<^verbatim>\<open>errors\<close> object of the ValidationError.\<close>

definition validate :: "project \<Rightarrow> errs" where
  "validate p =
     path_error p ''title'' check_title @
     path_error p ''description'' check_description @
     path_error p ''category'' check_category @
     path_error p ''technologies'' check_technologies @
     path_error p ''highlights'' check_highlights @
     path_error p ''image'' check_image @
     path_error p ''github'' check_github @
     path_error p ''live'' check_live @
     path_error p ''impact'' check_impact"

section \<open>The store, the clock and identifiers\<close>

text \<open>
  The collection is the list of stored documents. \<open>clock\<close> is the time of the last
  reading; \<open>ticks\<close> holds the milliseconds that pass before each later reading, so time
  never runs backwards. \<open>next_oid\<close> numbers the identifiers the driver hands out.
  Store failures (status 500) are not modelled.
\<close>

record world =
  clock :: nat
  ticks :: "nat list"
  next_oid :: nat
  docs :: "project list"

text \<open>\<^verbatim>\<open>Date.now()\<close>\<close>

definition date_now :: "world \<Rightarrow> nat \<times> world" where
  "date_now w =
     (case ticks w of
        [] \<Rightarrow> (clock w, w)
      | d # ds \<Rightarrow> (clock w + d, w\<lparr>clock := clock w + d, ticks := ds\<rparr>))"

definition is_hex :: "char \<Rightarrow> bool" where
  "is_hex c = (c \<in> set ''0123456789abcdefABCDEF'')"

definition hex_val :: "char \<Rightarrow> nat" where
  "hex_val c =
     (let n = (of_char c :: nat)
      in if 97 \<le> n then n - 87 else if 65 \<le> n then n - 55 else n - 48)"

text \<open>
  \<^verbatim>\<open>mongoose.Types.ObjectId.isValid\<close> on a string: 24 hexadecimal digits, or any 12
  characters (read as 12 bytes).
\<close>

definition ObjectId_isValid :: "string \<Rightarrow> bool" where
  "ObjectId_isValid s = (length s = 12 \<or> (length s = 24 \<and> list_all is_hex s))"

text \<open>The number a well-formed identifier string denotes.\<close>

definition castObjectId :: "string \<Rightarrow> nat" where
  "castObjectId s =
     (if length s = 24 then foldl (\<lambda>a c. 16 * a + hex_val c) 0 s
      else foldl (\<lambda>a c. 256 * a + of_char c) 0 s)"

text \<open>\<^verbatim>\<open>findById\<close>, and the store side of deleting and replacing one document.\<close>

definition findById :: "nat \<Rightarrow> project list \<Rightarrow> project option" where
  "findById k ds = find (\<lambda>p. oid p = k) ds"

fun deleteOne :: "nat \<Rightarrow> project list \<Rightarrow> project list" where
  "deleteOne k [] = []"
| "deleteOne k (q # qs) = (if oid q = k then qs else q # deleteOne k qs)"

fun replaceOne :: "nat \<Rightarrow> project \<Rightarrow> project list \<Rightarrow> project list" where
  "replaceOne k p [] = []"
| "replaceOne k p (q # qs) = (if oid q = k then p # qs else q # replaceOne k p qs)"

text \<open>
  \<^verbatim>\<open>save()\<close>: validation runs first and a failure rejects with the errors, writing
  nothing. Otherwise the \<^verbatim>\<open>pre('save')\<close> hook sets \<^verbatim>\<open>updatedAt = Date.now()\<close> and the
  document is inserted (a new document) or replaces the stored one.
\<close>

definition save :: "bool \<Rightarrow> project \<Rightarrow> world \<Rightarrow> (errs + project) \<times> world" where
  "save isNew d w =
     (case validate d of
        e # es \<Rightarrow> (Inl (e # es), w)
      | [] \<Rightarrow>
          (let (now, w') = date_now w;
               p = d\<lparr>updatedAt := now\<rparr>
           in (Inr p, w'\<lparr>docs := (if isNew then docs w' @ [p] else replaceOne (oid p) p (docs w'))\<rparr>)))"

section \<open>Responses\<close>

datatype payload = NoData | Doc project | Docs "project list"

record response =
  status :: nat
  success :: bool
  message :: "string option"
  errors :: "string list option"
  count_field :: "nat option"
  data :: payload

definition failure :: "nat \<Rightarrow> string \<Rightarrow> response" where
  "failure code msg =
     \<lparr>status = code, success = False, message = Some msg, errors = None, count_field = None, data = NoData\<rparr>"

text \<open>
  The answer to a ValidationError: the messages of \<^verbatim>\<open>error.errors\<close>, in the order in
  which the paths are validated, the order of the schema.
\<close>

definition validation_error :: "errs \<Rightarrow> response" where
  "validation_error es =
     \<lparr>status = 400, success = False, message = Some ''Validation error'',
      errors = Some (map snd es), count_field = None, data = NoData\<rparr>"

definition ok_doc :: "nat \<Rightarrow> string option \<Rightarrow> project \<Rightarrow> response" where
  "ok_doc code msg p =
     \<lparr>status = code, success = True, message = msg, errors = None, count_field = None, data = Doc p\<rparr>"

definition ok_list :: "project list \<Rightarrow> response" where
  "ok_list ps =
     \<lparr>status = 200, success = True, message = None, errors = None,
      count_field = Some (length ps), data = Docs ps\<rparr>"

section \<open>Route handlers\<close>

text \<open>
  \<^verbatim>\<open>GET /api/projects\<close>. Each query parameter is absent or one string. The store
  sorts: by title ascending in the order of the character codes (a missing title
  first), or by creation time descending.
\<close>

definition get_projects :: "string option \<Rightarrow> string option \<Rightarrow> world \<Rightarrow> response" where
  "get_projects category_q sort_q w =
     (let found = (case category_q of
                     None \<Rightarrow> docs w
                   | Some c \<Rightarrow> if c = [] then docs w else filter (\<lambda>p. category p = Some c) (docs w))
      in ok_list (if sort_q = Some ''title'' then sort_key title found
                  else rev (sort_key createdAt found)))"

text \<open>\<^verbatim>\<open>GET /api/projects/:id\<close>\<close>

definition get_project :: "string \<Rightarrow> world \<Rightarrow> response" where
  "get_project i w =
     (if \<not> ObjectId_isValid i then failure 400 ''Invalid project ID''
      else case findById (castObjectId i) (docs w) of
             None \<Rightarrow> failure 404 ''Project not found''
           | Some p \<Rightarrow> ok_doc 200 None p)"

text \<open>
  \<^verbatim>\<open>new Project({...})\<close> in the create handler. The document gets a fresh identifier
  and the schema's defaults, \<^verbatim>\<open>createdAt\<close> and \<^verbatim>\<open>updatedAt\<close> each from its own
  \<^verbatim>\<open>Date.now\<close>; then the nine fields are assigned as the handler passes them.
\<close>

definition blank_project :: "nat \<Rightarrow> nat \<Rightarrow> nat \<Rightarrow> project" where
  "blank_project k created updated =
     \<lparr>oid = k, title = None, description = None, category = None, technologies = [],
      highlights = [], image_url = None, github = None, live = None, impact = None,
      createdAt = created, updatedAt = updated\<rparr>"

definition new_Project :: "body \<Rightarrow> project \<Rightarrow> project" where
  "new_Project b blank =
     set_impact (or_null (req_impact b))
      (set_live (or_null (req_live b))
      (set_github (or_null (req_github b))
      (set_image (or_null (req_image b))
      (set_highlights (if is_truthy_list (req_highlights b) then array_of (req_highlights b) else [])
      (set_technologies (array_of (req_technologies b))
      (set_category (value_of (req_category b))
      (set_description (value_of (req_description b))
      (set_title (value_of (req_title b)) blank))))))))"

text \<open>
  \<^verbatim>\<open>POST /api/projects\<close>. The clock is read three times on the way to a stored
  document: for each of the two defaults when the document is built, and by the
  \<^verbatim>\<open>pre('save')\<close> hook.
\<close>

definition post_projects :: "body \<Rightarrow> world \<Rightarrow> response \<times> world" where
  "post_projects b w =
     (if \<not> is_truthy (req_title b) \<or> \<not> is_truthy (req_description b) \<or>
         \<not> is_truthy (req_category b) \<or> \<not> is_truthy_list (req_technologies b)
      then (failure 400 ''Please provide all required fields: title, description, category, technologies'', w)
      else
        (let (created, w1) = date_now w;
             (updated, w2) = date_now w1;
             d = new_Project b (blank_project (next_oid w2) created updated);
             w3 = w2\<lparr>next_oid := Suc (next_oid w2)\<rparr>
         in case save True d w3 of
              (Inr p, w4) \<Rightarrow> (ok_doc 201 (Some ''Project created successfully'') p, w4)
            | (Inl es, w4) \<Rightarrow> (validation_error es, w4)))"

text \<open>The field assignments of the update handler, in the handler's order.\<close>

definition assign_if_truthy :: "json option \<Rightarrow> (json \<Rightarrow> project \<Rightarrow> project) \<Rightarrow> project \<Rightarrow> project" where
  "assign_if_truthy v f p = (case v of None \<Rightarrow> p | Some x \<Rightarrow> if truthy x then f x p else p)"

definition assign_list_if_truthy :: "jlist option \<Rightarrow> (json list \<Rightarrow> project \<Rightarrow> project) \<Rightarrow> project \<Rightarrow> project" where
  "assign_list_if_truthy v f p =
     (case v of None \<Rightarrow> p | Some x \<Rightarrow> if truthy_list x then f (to_array x) p else p)"

definition assign_if_defined :: "json option \<Rightarrow> (json \<Rightarrow> project \<Rightarrow> project) \<Rightarrow> project \<Rightarrow> project" where
  "assign_if_defined v f p = (case v of None \<Rightarrow> p | Some x \<Rightarrow> f x p)"

definition update_fields :: "body \<Rightarrow> project \<Rightarrow> project" where
  "update_fields b p =
     assign_if_defined (req_impact b) set_impact
      (assign_if_defined (req_live b) set_live
      (assign_if_defined (req_github b) set_github
      (assign_if_defined (req_image b) set_image
      (assign_list_if_truthy (req_highlights b) set_highlights
      (assign_list_if_truthy (req_technologies b) set_technologies
      (assign_if_truthy (req_category b) set_category
      (assign_if_truthy (req_description b) set_description
      (assign_if_truthy (req_title b) set_title p))))))))"

text \<open>\<^verbatim>\<open>PUT /api/projects/:id\<close>\<close>

definition put_project :: "string \<Rightarrow> body \<Rightarrow> world \<Rightarrow> response \<times> world" where
  "put_project i b w =
     (if \<not> ObjectId_isValid i then (failure 400 ''Invalid project ID'', w)
      else case findById (castObjectId i) (docs w) of
             None \<Rightarrow> (failure 404 ''Project not found'', w)
           | Some p \<Rightarrow>
               (case save False (update_fields b p) w of
                  (Inr p', w') \<Rightarrow> (ok_doc 200 (Some ''Project updated successfully'') p', w')
                | (Inl es, w') \<Rightarrow> (validation_error es, w')))"

text \<open>\<^verbatim>\<open>DELETE /api/projects/:id\<close>\<close>

definition delete_project :: "string \<Rightarrow> world \<Rightarrow> response \<times> world" where
  "delete_project i w =
     (if \<not> ObjectId_isValid i then (failure 400 ''Invalid project ID'', w)
      else case findById (castObjectId i) (docs w) of
             None \<Rightarrow> (failure 404 ''Project not found'', w)
           | Some p \<Rightarrow>
               (ok_doc 200 (Some ''Project deleted successfully'') p,
                w\<lparr>docs := deleteOne (castObjectId i) (docs w)\<rparr>))"

text \<open>\<^verbatim>\<open>GET /api/projects/category/:category\<close>\<close>

definition get_projects_by_category :: "string \<Rightarrow> world \<Rightarrow> response" where
  "get_projects_by_category c w =
     ok_list (rev (sort_key createdAt (filter (\<lambda>p. category p = Some c) (docs w))))"

section \<open>Stored documents and reachable stores\<close>

text \<open>A stored document is well formed when it passes the schema's validation as it is.\<close>

definition valid_project :: "project \<Rightarrow> bool" where
  "valid_project p = (validate p = [])"

text \<open>
  The condition every store built by the handlers satisfies: identifiers are distinct
  and were handed out by the driver, every document is valid, and no time stamp lies
  ahead of the clock.
\<close>

definition wf_world :: "world \<Rightarrow> bool" where
  "wf_world w =
     (distinct (map oid (docs w)) \<and>
      list_all (\<lambda>p. oid p < next_oid w \<and> valid_project p \<and>
                     createdAt p \<le> updatedAt p \<and> updatedAt p \<le> clock w) (docs w))"

text \<open>
  The stores that requests can produce: start from an empty collection, at any time
  and with any future of the clock, and run create, update and delete requests.
\<close>

inductive reachable :: "world \<Rightarrow> bool" where
  start: "reachable \<lparr>clock = t, ticks = ts, next_oid = n, docs = []\<rparr>"
| created: "reachable w \<Longrightarrow> reachable (snd (post_projects b w))"
| updated: "reachable w \<Longrightarrow> reachable (snd (put_project i b w))"
| deleted: "reachable w \<Longrightarrow> reachable (snd (delete_project i w))"

section \<open>Sample requests\<close>

definition world0 :: world where
  "world0 = \<lparr>clock = 1000, ticks = [5, 3, 1, 2, 7, 1, 4, 6, 2], next_oid = 1, docs = []\<rparr>"

definition body_full :: body where
  "body_full =
     \<lparr>req_title = Some (JStr ''Face Mask Detector''),
      req_description = Some (JStr ''Detects masks in video''),
      req_category = Some (JStr ''AI/Computer Vision''),
      req_technologies = Some (JArr [JStr ''Python'', JStr ''OpenCV'']),
      req_highlights = Some (JArr [JStr ''Real time'']),
      req_image = None,
      req_github = Some (JStr ''https://github.com/me/repo''),
      req_live = Some (JStr ''https://example.com''),
      req_impact = Some (JStr ''95% accuracy'')\<rparr>"

definition body_no_title :: body where
  "body_no_title = body_full\<lparr>req_title := None\<rparr>"

definition body_no_highlights :: body where
  "body_no_highlights = body_full\<lparr>req_highlights := None, req_github := None\<rparr>"

definition body_evil_github :: body where
  "body_evil_github = body_full\<lparr>req_github := Some (JStr ''https://evil.com'')\<rparr>"

definition body_impact :: body where
  "body_impact = no_fields\<lparr>req_impact := Some (JStr ''Used at three sites'')\<rparr>"

definition body_clear :: body where
  "body_clear = no_fields\<lparr>req_impact := Some (JStr ''''), req_github := Some JNull\<rparr>"

definition body_bad_github :: body where
  "body_bad_github = no_fields\<lparr>req_github := Some (JStr ''https://evil.com'')\<rparr>"

definition body_blank_title :: body where
  "body_blank_title =
     no_fields\<lparr>req_title := Some (JStr ''''), req_impact := Some (JStr ''Used at three sites'')\<rparr>"

text \<open>The store after one successful create request: one document, identifier 1.\<close>

definition world1 :: world where
  "world1 = snd (post_projects body_full world0)"

text \<open>A second create request on that store: scalars where the schema has lists.\<close>

definition body_second :: body where
  "body_second =
     no_fields\<lparr>req_title := Some (JStr ''Weather Dashboard''),
       req_description := Some (JStr ''Charts of daily weather''),
       req_category := Some (JStr ''Data Analytics''),
       req_technologies := Some (JOne (JStr ''Tableau'')),
       req_highlights := Some (JOne (JStr ''Used by two schools''))\<rparr>"

text \<open>The store after both create requests.\<close>

definition world2 :: world where
  "world2 = snd (post_projects body_second world1)"

text \<open>The identifier 1 as a request parameter, and one that no document carries.\<close>

definition id1 :: string where
  "id1 = ''000000000000000000000001''"

definition id_absent :: string where
  "id_absent = ''0000000000000000000000ff''"

section \<open>Casting\<close>

lemma digits_not_Nil: "digits n \<noteq> []"
  by (subst digits.simps) simp

lemma truthy_castString: "truthy v \<Longrightarrow> castString v = Some s \<Longrightarrow> s \<noteq> []"
  by (cases v) (auto simp: number_toString_def digits_not_Nil split: if_splits)

section \<open>Field assignment in normal form\<close>

text \<open>
  Every assignment of the update handler is an update of one field of the document, to
  the cast value or to the value the field had.
\<close>

lemma assign_title_eq:
  "assign_if_truthy v set_title p =
     title_update (\<lambda>old. if is_truthy v then map_option trim (castString (value_of v)) else old) p"
  by (cases p) (simp add: assign_if_truthy_def set_title_def value_of_def is_truthy_def split: option.splits)

lemma assign_description_eq:
  "assign_if_truthy v set_description p =
     description_update (\<lambda>old. if is_truthy v then castString (value_of v) else old) p"
  by (cases p) (simp add: assign_if_truthy_def set_description_def value_of_def is_truthy_def split: option.splits)

lemma assign_category_eq:
  "assign_if_truthy v set_category p =
     category_update (\<lambda>old. if is_truthy v then castString (value_of v) else old) p"
  by (cases p) (simp add: assign_if_truthy_def set_category_def value_of_def is_truthy_def split: option.splits)

lemma assign_image_eq:
  "assign_if_defined v set_image p =
     image_url_update (\<lambda>old. if v \<noteq> None then castString (value_of v) else old) p"
  by (cases p) (simp add: assign_if_defined_def set_image_def value_of_def split: option.splits)

lemma assign_github_eq:
  "assign_if_defined v set_github p =
     github_update (\<lambda>old. if v \<noteq> None then castString (value_of v) else old) p"
  by (cases p) (simp add: assign_if_defined_def set_github_def value_of_def split: option.splits)

lemma assign_live_eq:
  "assign_if_defined v set_live p =
     live_update (\<lambda>old. if v \<noteq> None then castString (value_of v) else old) p"
  by (cases p) (simp add: assign_if_defined_def set_live_def value_of_def split: option.splits)

lemma assign_impact_eq:
  "assign_if_defined v set_impact p =
     impact_update (\<lambda>old. if v \<noteq> None then castString (value_of v) else old) p"
  by (cases p) (simp add: assign_if_defined_def set_impact_def value_of_def split: option.splits)

lemma assign_technologies_eq:
  "assign_list_if_truthy v set_technologies p =
     technologies_update (\<lambda>old. if is_truthy_list v then castStringArray (array_of v) else old) p"
  by (cases p)
     (simp add: assign_list_if_truthy_def set_technologies_def array_of_def is_truthy_list_def
        split: option.splits)

lemma assign_highlights_eq:
  "assign_list_if_truthy v set_highlights p =
     highlights_update (\<lambda>old. if is_truthy_list v then castStringArray (array_of v) else old) p"
  by (cases p)
     (simp add: assign_list_if_truthy_def set_highlights_def array_of_def is_truthy_list_def
        split: option.splits)

lemmas assign_eqs =
  assign_title_eq assign_description_eq assign_category_eq assign_technologies_eq assign_highlights_eq assign_image_eq assign_github_eq assign_live_eq assign_impact_eq

lemmas set_defs =
  set_title_def set_description_def set_category_def set_technologies_def set_highlights_def set_image_def set_github_def set_live_def set_impact_def

lemmas check_defs =
  check_title_def check_description_def check_category_def check_technologies_def check_highlights_def check_image_def check_github_def check_live_def check_impact_def

section \<open>Validation\<close>

lemma path_error_Nil: "path_error p x c = [] \<longleftrightarrow> c p = None"
  by (simp add: path_error_def split: option.splits)

lemma path_error_keys: "k \<in> fst ` set (path_error p x c) \<longleftrightarrow> k = x \<and> c p \<noteq> None"
  by (cases "c p") (auto simp: path_error_def)

lemma validate_Nil:
  "validate p = [] \<longleftrightarrow>
     check_title p = None \<and> check_description p = None \<and> check_category p = None \<and>
     check_technologies p = None \<and> check_highlights p = None \<and> check_image p = None \<and>
     check_github p = None \<and> check_live p = None \<and> check_impact p = None"
  by (simp add: validate_def path_error_Nil)

lemma valid_project_iff:
  "valid_project p \<longleftrightarrow>
     check_title p = None \<and> check_description p = None \<and> check_category p = None \<and>
     check_technologies p = None \<and> check_highlights p = None \<and> check_image p = None \<and>
     check_github p = None \<and> check_live p = None \<and> check_impact p = None"
  by (simp add: valid_project_def validate_Nil)

lemma valid_project_updatedAt: "valid_project (p\<lparr>updatedAt := n\<rparr>) = valid_project p"
  by (simp add: valid_project_iff check_defs)

lemma validate_entry_github:
  "check_github p = Some m \<Longrightarrow> (''github'', m) \<in> set (validate p)"
  by (simp add: validate_def path_error_def)

lemma validate_keys_title:
  "''title'' \<in> fst ` set (validate p) \<longleftrightarrow> check_title p \<noteq> None"
  by (simp add: validate_def image_Un path_error_keys)

lemma validate_keys_description:
  "''description'' \<in> fst ` set (validate p) \<longleftrightarrow> check_description p \<noteq> None"
  by (simp add: validate_def image_Un path_error_keys)

lemma validate_keys_category:
  "''category'' \<in> fst ` set (validate p) \<longleftrightarrow> check_category p \<noteq> None"
  by (simp add: validate_def image_Un path_error_keys)

lemma validate_keys_technologies:
  "''technologies'' \<in> fst ` set (validate p) \<longleftrightarrow> check_technologies p \<noteq> None"
  by (simp add: validate_def image_Un path_error_keys)

lemma validate_keys_github:
  "''github'' \<in> fst ` set (validate p) \<longleftrightarrow> check_github p \<noteq> None"
  by (simp add: validate_def image_Un path_error_keys)

lemma check_title_cong: "title q = title p \<Longrightarrow> check_title q = check_title p"
  by (simp add: check_title_def)

lemma check_description_cong: "description q = description p \<Longrightarrow> check_description q = check_description p"
  by (simp add: check_description_def)

lemma check_category_cong: "category q = category p \<Longrightarrow> check_category q = check_category p"
  by (simp add: check_category_def)

lemma check_technologies_cong: "technologies q = technologies p \<Longrightarrow> check_technologies q = check_technologies p"
  by (simp add: check_technologies_def)
section \<open>The clock\<close>

lemma date_now_mono: "clock w \<le> fst (date_now w)"
  by (simp add: date_now_def split: list.splits)

lemma date_now_clock: "clock (snd (date_now w)) = fst (date_now w)"
  by (simp add: date_now_def split: list.splits)

lemma date_now_docs: "docs (snd (date_now w)) = docs w"
  by (simp add: date_now_def split: list.splits)

lemma date_now_next_oid: "next_oid (snd (date_now w)) = next_oid w"
  by (simp add: date_now_def split: list.splits)

lemmas date_now_simps = date_now_clock date_now_docs date_now_next_oid

section \<open>The collection\<close>

lemma findById_Some: "findById k ds = Some p \<Longrightarrow> p \<in> set ds \<and> oid p = k"
  by (auto simp: findById_def find_Some_iff)

lemma findById_None: "findById k ds = None \<longleftrightarrow> k \<notin> oid ` set ds"
  by (auto simp: findById_def find_None_iff)

lemma findById_replaceOne:
  "findById k ds = Some p \<Longrightarrow> oid p' = k \<Longrightarrow> findById k (replaceOne k p' ds) = Some p'"
  by (induction ds) (auto simp: findById_def)

lemma findById_replaceOne_other:
  "j \<noteq> k \<Longrightarrow> oid p' = k \<Longrightarrow> findById j (replaceOne k p' ds) = findById j ds"
  by (induction ds) (auto simp: findById_def)

lemma map_oid_replaceOne: "oid p' = k \<Longrightarrow> map oid (replaceOne k p' ds) = map oid ds"
  by (induction ds) auto

lemma set_replaceOne: "set (replaceOne k p' ds) \<subseteq> insert p' (set ds)"
  by (induction ds) auto

lemma set_deleteOne: "set (deleteOne k ds) \<subseteq> set ds"
  by (induction ds) auto

lemma distinct_deleteOne: "distinct (map oid ds) \<Longrightarrow> distinct (map oid (deleteOne k ds))"
proof (induction ds)
  case Nil
  then show ?case by simp
next
  case (Cons q qs)
  have "oid ` set (deleteOne k qs) \<subseteq> oid ` set qs"
    using set_deleteOne by (rule image_mono)
  with Cons show ?case by auto
qed

lemma findById_deleteOne:
  "distinct (map oid ds) \<Longrightarrow> findById k (deleteOne k ds) = None"
proof (induction ds)
  case Nil
  then show ?case by (simp add: findById_def)
next
  case (Cons q qs)
  show ?case
  proof (cases "oid q = k")
    case True
    with Cons.prems have "k \<notin> oid ` set qs" by auto
    with True show ?thesis by (simp add: findById_None)
  next
    case False
    with Cons show ?thesis by (simp add: findById_def)
  qed
qed

lemma findById_deleteOne_other:
  "j \<noteq> k \<Longrightarrow> findById j (deleteOne k ds) = findById j ds"
  by (induction ds) (auto simp: findById_def)

lemma date_now_thrice:
  "fst (date_now ((snd (date_now (snd (date_now w))))\<lparr>next_oid := n\<rparr>)) =
     fst (date_now w) + sum_list (take 2 (drop 1 (ticks w)))"
  by (auto simp: date_now_def numeral_2_eq_2 split: list.splits)

section \<open>Saving\<close>

lemma save_rejected: "validate d \<noteq> [] \<Longrightarrow> save isNew d w = (Inl (validate d), w)"
  by (simp add: save_def split: list.splits)

lemma save_accepted:
  "validate d = [] \<Longrightarrow>
   save isNew d w =
     (Inr (d\<lparr>updatedAt := fst (date_now w)\<rparr>),
      (snd (date_now w))\<lparr>docs :=
         (if isNew then docs w @ [d\<lparr>updatedAt := fst (date_now w)\<rparr>]
          else replaceOne (oid d) (d\<lparr>updatedAt := fst (date_now w)\<rparr>) (docs w))\<rparr>)"
  by (simp add: save_def date_now_docs split_beta Let_def)

section \<open>The handlers, branch by branch\<close>

text \<open>The document the create handler builds, and the store it is saved to.\<close>

lemma new_Project_oid: "oid (new_Project b q) = oid q"
  by (simp add: new_Project_def set_defs)

lemma new_Project_createdAt: "createdAt (new_Project b q) = createdAt q"
  by (simp add: new_Project_def set_defs)

lemma update_fields_oid: "oid (update_fields b p) = oid p"
  by (simp add: update_fields_def assign_eqs)

lemma update_fields_createdAt: "createdAt (update_fields b p) = createdAt p"
  by (simp add: update_fields_def assign_eqs)

lemma post_guard:
  "\<not> is_truthy (req_title b) \<or> \<not> is_truthy (req_description b) \<or>
   \<not> is_truthy (req_category b) \<or> \<not> is_truthy_list (req_technologies b) \<Longrightarrow>
   post_projects b w =
     (failure 400 ''Please provide all required fields: title, description, category, technologies'', w)"
  by (simp add: post_projects_def)

lemma post_rejected:
  assumes "is_truthy (req_title b)" "is_truthy (req_description b)"
    "is_truthy (req_category b)" "is_truthy_list (req_technologies b)"
    and "w2 = snd (date_now (snd (date_now w)))"
    and "d = new_Project b (blank_project (next_oid w) (fst (date_now w)) (fst (date_now (snd (date_now w)))))"
    and "validate d \<noteq> []"
  shows "post_projects b w = (validation_error (validate d), w2\<lparr>next_oid := Suc (next_oid w)\<rparr>)"
  using assms by (simp add: post_projects_def split_beta Let_def date_now_simps save_rejected)

lemma post_accepted:
  assumes "is_truthy (req_title b)" "is_truthy (req_description b)"
    "is_truthy (req_category b)" "is_truthy_list (req_technologies b)"
    and "w3 = (snd (date_now (snd (date_now w))))\<lparr>next_oid := Suc (next_oid w)\<rparr>"
    and "d = new_Project b (blank_project (next_oid w) (fst (date_now w)) (fst (date_now (snd (date_now w)))))"
    and "validate d = []"
    and "p = d\<lparr>updatedAt := fst (date_now w3)\<rparr>"
  shows "post_projects b w =
     (ok_doc 201 (Some ''Project created successfully'') p,
      (snd (date_now w3))\<lparr>docs := docs w @ [p]\<rparr>)"
  using assms by (simp add: post_projects_def split_beta Let_def date_now_simps save_accepted)

lemma put_invalid_id:
  "\<not> ObjectId_isValid i \<Longrightarrow> put_project i b w = (failure 400 ''Invalid project ID'', w)"
  by (simp add: put_project_def)

lemma put_not_found:
  "ObjectId_isValid i \<Longrightarrow> findById (castObjectId i) (docs w) = None \<Longrightarrow>
   put_project i b w = (failure 404 ''Project not found'', w)"
  by (simp add: put_project_def)

lemma put_rejected:
  "ObjectId_isValid i \<Longrightarrow> findById (castObjectId i) (docs w) = Some p \<Longrightarrow>
   validate (update_fields b p) \<noteq> [] \<Longrightarrow>
   put_project i b w = (validation_error (validate (update_fields b p)), w)"
  by (simp add: put_project_def save_rejected)

lemma put_accepted:
  "ObjectId_isValid i \<Longrightarrow> findById (castObjectId i) (docs w) = Some p \<Longrightarrow>
   validate (update_fields b p) = [] \<Longrightarrow>
   p' = (update_fields b p)\<lparr>updatedAt := fst (date_now w)\<rparr> \<Longrightarrow>
   put_project i b w =
     (ok_doc 200 (Some ''Project updated successfully'') p',
      (snd (date_now w))\<lparr>docs := replaceOne (oid p) p' (docs w)\<rparr>)"
  by (simp add: put_project_def save_accepted update_fields_oid)

lemma delete_invalid_id:
  "\<not> ObjectId_isValid i \<Longrightarrow> delete_project i w = (failure 400 ''Invalid project ID'', w)"
  by (simp add: delete_project_def)

lemma delete_not_found:
  "ObjectId_isValid i \<Longrightarrow> findById (castObjectId i) (docs w) = None \<Longrightarrow>
   delete_project i w = (failure 404 ''Project not found'', w)"
  by (simp add: delete_project_def)

lemma delete_found:
  "ObjectId_isValid i \<Longrightarrow> findById (castObjectId i) (docs w) = Some p \<Longrightarrow>
   delete_project i w =
     (ok_doc 200 (Some ''Project deleted successfully'') p,
      w\<lparr>docs := deleteOne (castObjectId i) (docs w)\<rparr>)"
  by (simp add: delete_project_def)

section \<open>Every reachable store is well formed\<close>

lemma wf_worldD:
  "wf_world w \<Longrightarrow> p \<in> set (docs w) \<Longrightarrow>
   oid p < next_oid w \<and> valid_project p \<and> createdAt p \<le> updatedAt p \<and> updatedAt p \<le> clock w"
  by (simp add: wf_world_def list_all_iff)

lemma wf_world_distinct: "wf_world w \<Longrightarrow> distinct (map oid (docs w))"
  by (simp add: wf_world_def)

lemma wf_post:
  assumes "wf_world w"
  shows "wf_world (snd (post_projects b w))"
proof -
  let ?guard = "is_truthy (req_title b) \<and> is_truthy (req_description b) \<and>
    is_truthy (req_category b) \<and> is_truthy_list (req_technologies b)"
  let ?w1 = "snd (date_now w)"
  let ?w2 = "snd (date_now ?w1)"
  let ?d = "new_Project b (blank_project (next_oid w) (fst (date_now w)) (fst (date_now ?w1)))"
  let ?w3 = "?w2\<lparr>next_oid := Suc (next_oid w)\<rparr>"
  have old: "\<And>q. q \<in> set (docs w) \<Longrightarrow>
     oid q < next_oid w \<and> valid_project q \<and> createdAt q \<le> updatedAt q \<and> updatedAt q \<le> clock w"
    using assms by (rule wf_worldD)
  have c1: "clock w \<le> fst (date_now w)" by (rule date_now_mono)
  have c2: "fst (date_now w) \<le> clock ?w2"
    using date_now_mono [of ?w1] by (simp add: date_now_clock)
  have c3: "clock ?w2 \<le> fst (date_now ?w3)"
    using date_now_mono [of ?w3] by simp
  show ?thesis
  proof (cases ?guard)
    case False
    then show ?thesis using assms by (auto simp: post_guard)
  next
    case guard: True
    show ?thesis
    proof (cases "validate ?d = []")
      case False
      with guard have "snd (post_projects b w) = ?w3"
        by (simp add: post_rejected [OF _ _ _ _ refl refl False])
      moreover have "wf_world ?w3"
        using assms old c1 c2 by (fastforce simp: wf_world_def list_all_iff date_now_simps)
      ultimately show ?thesis by simp
    next
      case True
      define p where "p = ?d\<lparr>updatedAt := fst (date_now ?w3)\<rparr>"
      from guard
      have eq: "snd (post_projects b w) = (snd (date_now ?w3))\<lparr>docs := docs w @ [p]\<rparr>"
        by (simp add: post_accepted [OF _ _ _ _ refl refl True p_def])
      have p_oid: "oid p = next_oid w"
        by (simp add: p_def new_Project_oid blank_project_def)
      have p_valid: "valid_project p"
        unfolding p_def valid_project_updatedAt using True by (simp add: valid_project_def)
      have p_created: "createdAt p = fst (date_now w)"
        by (simp add: p_def new_Project_createdAt blank_project_def)
      have p_updated: "updatedAt p = fst (date_now ?w3)" by (simp add: p_def)
      have fresh: "oid p \<notin> oid ` set (docs w)"
        using old p_oid by fastforce
      have "distinct (map oid (docs w @ [p]))"
        using wf_world_distinct [OF assms] fresh by simp
      moreover have "\<forall>q\<in>set (docs w @ [p]). oid q < Suc (next_oid w) \<and> valid_project q \<and>
          createdAt q \<le> updatedAt q \<and> updatedAt q \<le> fst (date_now ?w3)"
        using old p_oid p_valid p_created p_updated c1 c2 c3
        by (auto intro: le_trans less_SucI)
      ultimately show ?thesis
        by (simp add: eq wf_world_def list_all_iff date_now_simps)
    qed
  qed
qed

lemma wf_put:
  assumes "wf_world w"
  shows "wf_world (snd (put_project i b w))"
proof (cases "ObjectId_isValid i")
  case False
  then show ?thesis using assms by (simp add: put_invalid_id)
next
  case valid: True
  show ?thesis
  proof (cases "findById (castObjectId i) (docs w)")
    case None
    with valid show ?thesis using assms by (simp add: put_not_found)
  next
    case (Some p)
    have old: "\<And>q. q \<in> set (docs w) \<Longrightarrow>
       oid q < next_oid w \<and> valid_project q \<and> createdAt q \<le> updatedAt q \<and> updatedAt q \<le> clock w"
      using assms by (rule wf_worldD)
    have p_in: "p \<in> set (docs w)" using findById_Some [OF Some] by simp
    have c1: "clock w \<le> fst (date_now w)" by (rule date_now_mono)
    show ?thesis
    proof (cases "validate (update_fields b p) = []")
      case False
      with valid Some show ?thesis using assms by (simp add: put_rejected)
    next
      case True
      define p' where "p' = (update_fields b p)\<lparr>updatedAt := fst (date_now w)\<rparr>"
      have eq: "snd (put_project i b w) = (snd (date_now w))\<lparr>docs := replaceOne (oid p) p' (docs w)\<rparr>"
        by (simp add: put_accepted [OF valid Some True p'_def])
      have p'_oid: "oid p' = oid p" by (simp add: p'_def update_fields_oid)
      have p'_valid: "valid_project p'"
        unfolding p'_def valid_project_updatedAt using True by (simp add: valid_project_def)
      have p'_created: "createdAt p' = createdAt p" by (simp add: p'_def update_fields_createdAt)
      have p'_updated: "updatedAt p' = fst (date_now w)" by (simp add: p'_def)
      have "distinct (map oid (replaceOne (oid p) p' (docs w)))"
        using wf_world_distinct [OF assms] by (simp add: map_oid_replaceOne [OF p'_oid])
      moreover have "\<forall>q\<in>set (replaceOne (oid p) p' (docs w)). oid q < next_oid w \<and> valid_project q \<and>
          createdAt q \<le> updatedAt q \<and> updatedAt q \<le> fst (date_now w)"
      proof
        fix q assume "q \<in> set (replaceOne (oid p) p' (docs w))"
        then have "q = p' \<or> q \<in> set (docs w)" using set_replaceOne by fastforce
        then show "oid q < next_oid w \<and> valid_project q \<and>
          createdAt q \<le> updatedAt q \<and> updatedAt q \<le> fst (date_now w)"
        proof
          assume "q = p'"
          then show ?thesis
            using old [OF p_in] p'_oid p'_valid p'_created p'_updated c1 by auto
        next
          assume "q \<in> set (docs w)"
          then show ?thesis using old [of q] c1 by auto
        qed
      qed
      ultimately show ?thesis
        by (simp add: eq wf_world_def list_all_iff date_now_simps)
    qed
  qed
qed

lemma wf_delete:
  assumes "wf_world w"
  shows "wf_world (snd (delete_project i w))"
proof (cases "ObjectId_isValid i")
  case False
  then show ?thesis using assms by (simp add: delete_invalid_id)
next
  case valid: True
  show ?thesis
  proof (cases "findById (castObjectId i) (docs w)")
    case None
    with valid show ?thesis using assms by (simp add: delete_not_found)
  next
    case (Some p)
    have "set (deleteOne (castObjectId i) (docs w)) \<subseteq> set (docs w)" by (rule set_deleteOne)
    then show ?thesis
      using assms distinct_deleteOne [of "docs w" "castObjectId i"]
      by (auto simp: delete_found [OF valid Some] wf_world_def list_all_iff)
  qed
qed

lemma reachable_wf: "reachable w \<Longrightarrow> wf_world w"
proof (induction rule: reachable.induct)
  case (start t ts n)
  show ?case by (simp add: wf_world_def)
next
  case (created w b)
  then show ?case by (simp add: wf_post)
next
  case (updated w i b)
  then show ?case by (simp add: wf_put)
next
  case (deleted w i)
  then show ?case by (simp add: wf_delete)
qed

section \<open>The status of each answer\<close>

lemma get_status:
  "status (get_project i w) =
     (if \<not> ObjectId_isValid i then 400
      else case findById (castObjectId i) (docs w) of None \<Rightarrow> 404 | Some p \<Rightarrow> 200)"
  by (simp add: get_project_def failure_def ok_doc_def split: option.splits)

lemma put_status:
  "status (fst (put_project i b w)) =
     (if \<not> ObjectId_isValid i then 400
      else case findById (castObjectId i) (docs w) of
             None \<Rightarrow> 404
           | Some p \<Rightarrow> if validate (update_fields b p) = [] then 200 else 400)"
proof (cases "ObjectId_isValid i")
  case False
  then show ?thesis by (simp add: put_invalid_id failure_def)
next
  case valid: True
  show ?thesis
  proof (cases "findById (castObjectId i) (docs w)")
    case None
    with valid show ?thesis by (simp add: put_not_found failure_def)
  next
    case (Some p)
    show ?thesis
    proof (cases "validate (update_fields b p) = []")
      case True
      show ?thesis
        using valid Some True by (simp add: put_accepted [OF valid Some True refl] ok_doc_def)
    next
      case False
      show ?thesis
        using valid Some False by (simp add: put_rejected [OF valid Some False] validation_error_def)
    qed
  qed
qed

lemma delete_status:
  "status (fst (delete_project i w)) =
     (if \<not> ObjectId_isValid i then 400
      else case findById (castObjectId i) (docs w) of None \<Rightarrow> 404 | Some p \<Rightarrow> 200)"
  by (simp add: delete_project_def failure_def ok_doc_def split: option.splits)
section \<open>What an update stores\<close>

lemma put_stored:
  assumes "ObjectId_isValid i" and "findById (castObjectId i) (docs w) = Some p"
  shows "findById (castObjectId i) (docs (snd (put_project i b w))) =
     Some (if validate (update_fields b p) = []
           then (update_fields b p)\<lparr>updatedAt := fst (date_now w)\<rparr> else p)"
proof (cases "validate (update_fields b p) = []")
  case True
  have k: "oid p = castObjectId i" using findById_Some [OF assms(2)] by simp
  show ?thesis
    using assms(2) True
    by (simp add: put_accepted [OF assms True refl] k date_now_simps
        findById_replaceOne update_fields_oid)
next
  case False
  then show ?thesis using assms by (simp add: put_rejected)
qed

lemma put_others:
  assumes "j \<noteq> castObjectId i"
  shows "findById j (docs (snd (put_project i b w))) = findById j (docs w)"
proof (cases "ObjectId_isValid i")
  case False
  then show ?thesis by (simp add: put_invalid_id)
next
  case valid: True
  show ?thesis
  proof (cases "findById (castObjectId i) (docs w)")
    case None
    with valid show ?thesis by (simp add: put_not_found)
  next
    case (Some p)
    have k: "oid p = castObjectId i" using findById_Some [OF Some] by simp
    show ?thesis
    proof (cases "validate (update_fields b p) = []")
      case True
      show ?thesis
        using assms
        by (simp add: put_accepted [OF valid Some True refl] k date_now_simps
            findById_replaceOne_other update_fields_oid)
    next
      case False
      with valid Some show ?thesis by (simp add: put_rejected)
    qed
  qed
qed

lemma put_unchanged_unless_200:
  "status (fst (put_project i b w)) \<noteq> 200 \<Longrightarrow> snd (put_project i b w) = w"
  by (cases "ObjectId_isValid i"; cases "findById (castObjectId i) (docs w)")
     (auto simp: put_status put_invalid_id put_not_found put_rejected split: if_splits)

section \<open>The fields of an updated document\<close>

lemma update_fields_image:
  "image_url (update_fields b p) = (case req_image b of None \<Rightarrow> image_url p | Some v \<Rightarrow> castString v)"
  by (simp add: update_fields_def assign_eqs value_of_def split: option.splits)

lemma update_fields_github:
  "github (update_fields b p) = (case req_github b of None \<Rightarrow> github p | Some v \<Rightarrow> castString v)"
  by (simp add: update_fields_def assign_eqs value_of_def split: option.splits)

lemma update_fields_live:
  "live (update_fields b p) = (case req_live b of None \<Rightarrow> live p | Some v \<Rightarrow> castString v)"
  by (simp add: update_fields_def assign_eqs value_of_def split: option.splits)

lemma update_fields_impact:
  "impact (update_fields b p) = (case req_impact b of None \<Rightarrow> impact p | Some v \<Rightarrow> castString v)"
  by (simp add: update_fields_def assign_eqs value_of_def split: option.splits)

lemma update_fields_title_kept:
  "\<not> is_truthy (req_title b) \<Longrightarrow> title (update_fields b p) = title p"
  by (simp add: update_fields_def assign_eqs)

lemma update_fields_description_kept:
  "\<not> is_truthy (req_description b) \<Longrightarrow> description (update_fields b p) = description p"
  by (simp add: update_fields_def assign_eqs)

lemma update_fields_category_kept:
  "\<not> is_truthy (req_category b) \<Longrightarrow> category (update_fields b p) = category p"
  by (simp add: update_fields_def assign_eqs)

lemma update_fields_technologies_kept:
  "\<not> is_truthy_list (req_technologies b) \<Longrightarrow> technologies (update_fields b p) = technologies p"
  by (simp add: update_fields_def assign_eqs)

lemma update_fields_impact_only:
  "update_fields (no_fields\<lparr>req_impact := v\<rparr>) p =
     p\<lparr>impact := (case v of None \<Rightarrow> impact p | Some x \<Rightarrow> castString x)\<rparr>"
  by (cases p)
     (simp add: update_fields_def assign_eqs no_fields_def is_truthy_def is_truthy_list_def
        value_of_def split: option.splits)

section \<open>The sample store\<close>

lemma reachable_world1: "reachable world1"
  unfolding world1_def world0_def by (rule reachable.created) (rule reachable.start)

lemma world1_id1:
  "ObjectId_isValid id1 \<and> findById (castObjectId id1) (docs world1) = Some (hd (docs world1))"
  by code_simp

section \<open>The fields of a new document\<close>

lemma new_Project_github: "github (new_Project b q) = castString (or_null (req_github b))"
  by (simp add: new_Project_def set_defs)

lemma post_docs_unless_201:
  "status (fst (post_projects b w)) \<noteq> 201 \<Longrightarrow> docs (snd (post_projects b w)) = docs w"
proof (cases "is_truthy (req_title b) \<and> is_truthy (req_description b) \<and>
    is_truthy (req_category b) \<and> is_truthy_list (req_technologies b)")
  case False
  then show ?thesis by (auto simp: post_guard)
next
  case guard: True
  let ?d = "new_Project b
    (blank_project (next_oid w) (fst (date_now w)) (fst (date_now (snd (date_now w)))))"
  assume s: "status (fst (post_projects b w)) \<noteq> 201"
  show ?thesis
  proof (cases "validate ?d = []")
    case True
    with guard s show ?thesis
      by (simp add: post_accepted [OF _ _ _ _ refl refl True refl] ok_doc_def)
  next
    case False
    with guard show ?thesis
      by (simp add: post_rejected [OF _ _ _ _ refl refl False] date_now_simps)
  qed
qed

section \<open>Creating without a title\<close>

text \<open>
  C1 (as amended). A create request whose body has no title is answered with status
  400 by the handler's own check of the required fields: the response carries the one
  message naming the four required fields and no list of errors, and the store is left
  as it was.
\<close>

theorem post_missing_title:
  "req_title b = None \<Longrightarrow>
   status (fst (post_projects b w)) = 400 \<and>
   message (fst (post_projects b w)) =
     Some ''Please provide all required fields: title, description, category, technologies'' \<and>
   errors (fst (post_projects b w)) = None \<and>
   snd (post_projects b w) = w"
  by (simp add: post_guard is_truthy_def failure_def)

theorem post_missing_title_witness:
  "req_title body_no_title = None \<and>
   status (fst (post_projects body_no_title world0)) = 400 \<and>
   errors (fst (post_projects body_no_title world0)) = None \<and>
   snd (post_projects body_no_title world0) = world0"
proof -
  have h: "req_title body_no_title = None" by code_simp
  show ?thesis using h post_missing_title [of body_no_title world0] by simp
qed

text \<open>
  C1 as stated asks for a list of field-level messages in the response; the response
  to a body without a title has none.
\<close>

theorem post_missing_title_no_error_list:
  "status (fst (post_projects body_no_title world0)) = 400 \<and>
   errors (fst (post_projects body_no_title world0)) = None"
  by code_simp

section \<open>Creating from a valid payload\<close>

text \<open>
  C2 (as amended). A create request is answered with 201 when its title, description,
  category, technologies and highlights are truthy; the title, trimmed, is not empty
  and has at most 200 characters; the description has at most 2000; the category is
  one of the enum; technologies and highlights are not empty arrays; and github, live
  and impact are absent, falsy, or text that passes the field's check (github and
  live their patterns, impact at most 500 characters). The returned document is the
  one stored. It carries the driver's next identifier; its creation time is the first
  reading of the clock, taken when the document is built, and its update time is the
  third, taken by the save hook, so createdAt is at most updatedAt, and they differ by
  the time that passes between those two readings.
\<close>

theorem post_valid_payload:
  assumes "is_truthy (req_title b)" and "is_truthy (req_description b)"
    and "is_truthy (req_category b)" and "is_truthy_list (req_technologies b)"
    and "is_truthy_list (req_highlights b)"
    and "castString (value_of (req_title b)) = Some t"
    and "trim t \<noteq> []" and "length (trim t) \<le> 200"
    and "castString (value_of (req_description b)) = Some de" and "length de \<le> 2000"
    and "castString (value_of (req_category b)) = Some c" and "c \<in> set categories"
    and "array_of (req_technologies b) \<noteq> []" and "array_of (req_highlights b) \<noteq> []"
    and "case castString (or_null (req_github b)) of None \<Rightarrow> True | Some u \<Rightarrow> github_regex_test u"
    and "case castString (or_null (req_live b)) of None \<Rightarrow> True | Some u \<Rightarrow> url_regex_test u"
    and "case castString (or_null (req_impact b)) of None \<Rightarrow> True | Some s \<Rightarrow> length s \<le> 500"
  shows "status (fst (post_projects b w)) = 201 \<and>
    (\<exists>p. data (fst (post_projects b w)) = Doc p \<and>
       docs (snd (post_projects b w)) = docs w @ [p] \<and>
       oid p = next_oid w \<and>
       createdAt p = fst (date_now w) \<and>
       updatedAt p = createdAt p + sum_list (take 2 (drop 1 (ticks w))) \<and>
       createdAt p \<le> updatedAt p \<and>
       title p = Some (trim t) \<and> description p = Some de \<and> category p = Some c \<and>
       technologies p = castStringArray (array_of (req_technologies b)) \<and>
       highlights p = castStringArray (array_of (req_highlights b)) \<and>
       image_url p = castString (or_null (req_image b)) \<and>
       github p = castString (or_null (req_github b)) \<and>
       live p = castString (or_null (req_live b)) \<and>
       impact p = castString (or_null (req_impact b)))"
proof -
  let ?blank = "blank_project (next_oid w) (fst (date_now w)) (fst (date_now (snd (date_now w))))"
  let ?d = "new_Project b ?blank"
  let ?w3 = "(snd (date_now (snd (date_now w))))\<lparr>next_oid := Suc (next_oid w)\<rparr>"
  have d: "?d =
     \<lparr>oid = next_oid w, title = Some (trim t), description = Some de, category = Some c,
       technologies = castStringArray (array_of (req_technologies b)),
       highlights = castStringArray (array_of (req_highlights b)),
       image_url = castString (or_null (req_image b)),
       github = castString (or_null (req_github b)),
       live = castString (or_null (req_live b)),
       impact = castString (or_null (req_impact b)),
       createdAt = fst (date_now w), updatedAt = fst (date_now (snd (date_now w)))\<rparr>"
    using assms(5,6,9,11) by (simp add: new_Project_def blank_project_def set_defs)
  have "truthy (value_of (req_description b))"
    using assms(2) by (simp add: is_truthy_def value_of_def split: option.splits)
  then have de_ne: "de \<noteq> []"
    using assms(9) by (rule truthy_castString)
  have "[] \<notin> set categories" by (simp add: categories_def)
  with assms(12) have c_ne: "c \<noteq> []" by auto
  have gh: "check_github ?d = None"
    using assms(15) by (cases "castString (or_null (req_github b))") (simp_all add: d check_github_def)
  have lv: "check_live ?d = None"
    using assms(16) by (cases "castString (or_null (req_live b))") (simp_all add: d check_live_def)
  have imp: "check_impact ?d = None"
    using assms(17) by (cases "castString (or_null (req_impact b))") (simp_all add: d check_impact_def)
  have req: "check_title ?d = None" "check_description ?d = None"
    "check_category ?d = None" "check_technologies ?d = None"
    "check_highlights ?d = None" "check_image ?d = None"
    using assms(7,8,10,12,13,14) de_ne c_ne
    by (auto simp: d check_title_def check_description_def check_category_def
        check_technologies_def check_highlights_def check_image_def castStringArray_def)
  have ok: "validate ?d = []"
    using gh lv imp req by (simp add: validate_Nil)
  define p where "p = ?d\<lparr>updatedAt := fst (date_now ?w3)\<rparr>"
  have r: "post_projects b w =
     (ok_doc 201 (Some ''Project created successfully'') p,
      (snd (date_now ?w3))\<lparr>docs := docs w @ [p]\<rparr>)"
    using assms(1-4) refl refl ok p_def by (rule post_accepted)
  have "updatedAt p = createdAt p + sum_list (take 2 (drop 1 (ticks w)))"
    by (simp add: p_def d date_now_thrice)
  then show ?thesis
    by (simp add: r ok_doc_def) (simp add: p_def d)
qed

theorem post_valid_payload_witness:
  "is_truthy (req_title body_full) \<and> is_truthy (req_description body_full) \<and>
   is_truthy (req_category body_full) \<and> is_truthy_list (req_technologies body_full) \<and>
   is_truthy_list (req_highlights body_full) \<and>
   status (fst (post_projects body_full world0)) = 201 \<and>
   (\<exists>p. data (fst (post_projects body_full world0)) = Doc p \<and>
      docs (snd (post_projects body_full world0)) = docs world0 @ [p] \<and>
      oid p = 1 \<and> createdAt p = 1005 \<and> updatedAt p = 1009 \<and>
      title p = Some ''Face Mask Detector'' \<and> github p = Some ''https://github.com/me/repo'')"
proof -
  have h1: "is_truthy (req_title body_full)" "is_truthy (req_description body_full)"
    "is_truthy (req_category body_full)" "is_truthy_list (req_technologies body_full)"
    "is_truthy_list (req_highlights body_full)"
    by code_simp+
  have t: "castString (value_of (req_title body_full)) = Some ''Face Mask Detector''"
    "trim ''Face Mask Detector'' \<noteq> []" "length (trim ''Face Mask Detector'') \<le> 200"
    by code_simp+
  have de: "castString (value_of (req_description body_full)) = Some ''Detects masks in video''"
    "length ''Detects masks in video'' \<le> 2000"
    by code_simp+
  have c: "castString (value_of (req_category body_full)) = Some ''AI/Computer Vision''"
    "''AI/Computer Vision'' \<in> set categories"
    by code_simp+
  have ls: "array_of (req_technologies body_full) \<noteq> []" "array_of (req_highlights body_full) \<noteq> []"
    by code_simp+
  have opt:
    "case castString (or_null (req_github body_full)) of None \<Rightarrow> True | Some u \<Rightarrow> github_regex_test u"
    "case castString (or_null (req_live body_full)) of None \<Rightarrow> True | Some u \<Rightarrow> url_regex_test u"
    "case castString (or_null (req_impact body_full)) of None \<Rightarrow> True | Some s \<Rightarrow> length s \<le> 500"
    by code_simp+
  have w: "next_oid world0 = 1" "fst (date_now world0) = 1005"
    "sum_list (take 2 (drop 1 (ticks world0))) = 4"
    "castString (or_null (req_github body_full)) = Some ''https://github.com/me/repo''"
    "trim ''Face Mask Detector'' = ''Face Mask Detector''"
    by code_simp+
  have "status (fst (post_projects body_full world0)) = 201 \<and>
    (\<exists>p. data (fst (post_projects body_full world0)) = Doc p \<and>
       docs (snd (post_projects body_full world0)) = docs world0 @ [p] \<and>
       oid p = 1 \<and> createdAt p = 1005 \<and> updatedAt p = createdAt p + 4 \<and>
       createdAt p \<le> updatedAt p \<and>
       title p = Some ''Face Mask Detector'' \<and>
       description p = Some ''Detects masks in video'' \<and>
       category p = Some ''AI/Computer Vision'' \<and>
       technologies p = castStringArray (array_of (req_technologies body_full)) \<and>
       highlights p = castStringArray (array_of (req_highlights body_full)) \<and>
       image_url p = castString (or_null (req_image body_full)) \<and>
       github p = Some ''https://github.com/me/repo'' \<and>
       live p = castString (or_null (req_live body_full)) \<and>
       impact p = castString (or_null (req_impact body_full)))"
    using post_valid_payload [OF h1 t de c ls opt, of world0] unfolding w .
  then show ?thesis using h1 by auto
qed

text \<open>
  C2 as stated promises 201 when highlights are absent, and equal time stamps. A
  payload that is valid but for the absent highlights is answered with 400; and the
  complete payload is stored with an update time four milliseconds after its creation
  time, the clock having advanced between the readings.
\<close>

theorem post_created_differs:
  "req_highlights body_no_highlights = None \<and>
   status (fst (post_projects body_no_highlights world0)) = 400 \<and>
   errors (fst (post_projects body_no_highlights world0)) = Some [''Add at least one highlight''] \<and>
   status (fst (post_projects body_full world0)) = 201 \<and>
   map createdAt (docs (snd (post_projects body_full world0))) = [1005] \<and>
   map updatedAt (docs (snd (post_projects body_full world0))) = [1009]"
  by code_simp

section \<open>Updating the impact alone\<close>

text \<open>
  C3. Take a store that requests can produce, a document in it, and an update request
  whose body carries no field other than impact. The document stored under the id
  afterwards differs from the one before in impact and updatedAt at most, its
  updatedAt is not earlier than before, and every other document is as it was.
\<close>

theorem put_impact_only:
  assumes "reachable w" and "ObjectId_isValid i"
    and "findById (castObjectId i) (docs w) = Some p"
    and "b = no_fields\<lparr>req_impact := req_impact b\<rparr>"
  shows "\<exists>p'. findById (castObjectId i) (docs (snd (put_project i b w))) = Some p' \<and>
           p'\<lparr>impact := impact p, updatedAt := updatedAt p\<rparr> = p \<and>
           updatedAt p \<le> updatedAt p' \<and>
           (\<forall>j. j \<noteq> castObjectId i \<longrightarrow>
              findById j (docs (snd (put_project i b w))) = findById j (docs w))"
proof -
  let ?d = "update_fields b p"
  let ?p' = "if validate ?d = [] then ?d\<lparr>updatedAt := fst (date_now w)\<rparr> else p"
  have "?d = update_fields (no_fields\<lparr>req_impact := req_impact b\<rparr>) p"
    using assms(4) by simp
  then have d: "?d = p\<lparr>impact := impact ?d\<rparr>"
    by (simp add: update_fields_impact_only)
  have "p \<in> set (docs w)" using findById_Some [OF assms(3)] by simp
  then have "updatedAt p \<le> clock w"
    using reachable_wf [OF assms(1)] wf_worldD by blast
  then have t: "updatedAt p \<le> fst (date_now w)"
    using date_now_mono [of w] by simp
  have "findById (castObjectId i) (docs (snd (put_project i b w))) = Some ?p'"
    using assms(2,3) by (rule put_stored)
  moreover have "?p'\<lparr>impact := impact p, updatedAt := updatedAt p\<rparr> = p"
    by (subst d) simp
  moreover have "updatedAt p \<le> updatedAt ?p'"
    using t by simp
  ultimately show ?thesis using put_others by blast
qed

theorem put_impact_only_witness:
  "reachable world1 \<and> ObjectId_isValid id1 \<and>
   findById (castObjectId id1) (docs world1) = Some (hd (docs world1)) \<and>
   body_impact = no_fields\<lparr>req_impact := req_impact body_impact\<rparr> \<and>
   req_impact body_impact = Some (JStr ''Used at three sites'') \<and>
   (\<exists>p'. findById (castObjectId id1) (docs (snd (put_project id1 body_impact world1))) = Some p' \<and>
          p'\<lparr>impact := impact (hd (docs world1)), updatedAt := updatedAt (hd (docs world1))\<rparr> =
            hd (docs world1) \<and>
          updatedAt (hd (docs world1)) \<le> updatedAt p')"
proof -
  have h: "body_impact = no_fields\<lparr>req_impact := req_impact body_impact\<rparr>"
    "req_impact body_impact = Some (JStr ''Used at three sites'')"
    by (simp_all add: body_impact_def)
  show ?thesis
    using reachable_world1 world1_id1 h
      put_impact_only [of world1 id1 "hd (docs world1)" body_impact]
    by blast
qed

section \<open>Nullable fields on update\<close>

text \<open>
  C4 (as amended). For an update request on an existing document that validation
  accepts (status 200), each of image, github, live and impact is stored as the value
  the body supplies, cast to text, whenever the body supplies one, the empty string and
  null included, and keeps its stored value when the body has none. An update that is
  not answered with 200 leaves the store as it was.
\<close>

theorem put_nullable_fields:
  assumes "ObjectId_isValid i" and "findById (castObjectId i) (docs w) = Some p"
  shows "(status (fst (put_project i b w)) = 200 \<longrightarrow>
           (\<exists>p'. findById (castObjectId i) (docs (snd (put_project i b w))) = Some p' \<and>
              (req_image b = None \<longrightarrow> image_url p' = image_url p) \<and>
              (\<forall>v. req_image b = Some v \<longrightarrow> image_url p' = castString v) \<and>
              (req_github b = None \<longrightarrow> github p' = github p) \<and>
              (\<forall>v. req_github b = Some v \<longrightarrow> github p' = castString v) \<and>
              (req_live b = None \<longrightarrow> live p' = live p) \<and>
              (\<forall>v. req_live b = Some v \<longrightarrow> live p' = castString v) \<and>
              (req_impact b = None \<longrightarrow> impact p' = impact p) \<and>
              (\<forall>v. req_impact b = Some v \<longrightarrow> impact p' = castString v))) \<and>
         (status (fst (put_project i b w)) \<noteq> 200 \<longrightarrow> snd (put_project i b w) = w)"
proof (intro conjI impI)
  let ?d = "update_fields b p"
  let ?p' = "?d\<lparr>updatedAt := fst (date_now w)\<rparr>"
  assume "status (fst (put_project i b w)) = 200"
  then have ok: "validate ?d = []"
    using assms by (simp add: put_status split: if_splits)
  then have stored: "findById (castObjectId i) (docs (snd (put_project i b w))) = Some ?p'"
    using put_stored [OF assms, of b] by simp
  show "\<exists>p'. findById (castObjectId i) (docs (snd (put_project i b w))) = Some p' \<and>
      (req_image b = None \<longrightarrow> image_url p' = image_url p) \<and>
      (\<forall>v. req_image b = Some v \<longrightarrow> image_url p' = castString v) \<and>
      (req_github b = None \<longrightarrow> github p' = github p) \<and>
      (\<forall>v. req_github b = Some v \<longrightarrow> github p' = castString v) \<and>
      (req_live b = None \<longrightarrow> live p' = live p) \<and>
      (\<forall>v. req_live b = Some v \<longrightarrow> live p' = castString v) \<and>
      (req_impact b = None \<longrightarrow> impact p' = impact p) \<and>
      (\<forall>v. req_impact b = Some v \<longrightarrow> impact p' = castString v)"
    using stored
    by (simp add: update_fields_image update_fields_github update_fields_live
        update_fields_impact)
next
  assume "status (fst (put_project i b w)) \<noteq> 200"
  then show "snd (put_project i b w) = w" by (rule put_unchanged_unless_200)
qed

theorem put_nullable_fields_witness:
  "ObjectId_isValid id1 \<and> findById (castObjectId id1) (docs world1) = Some (hd (docs world1)) \<and>
   status (fst (put_project id1 body_clear world1)) = 200 \<and>
   (\<exists>p'. findById (castObjectId id1) (docs (snd (put_project id1 body_clear world1))) = Some p' \<and>
      impact p' = Some '''' \<and> github p' = None \<and>
      live p' = live (hd (docs world1)) \<and> image_url p' = image_url (hd (docs world1))) \<and>
   status (fst (put_project id1 body_bad_github world1)) \<noteq> 200 \<and>
   snd (put_project id1 body_bad_github world1) = world1"
proof -
  have h1: "status (fst (put_project id1 body_clear world1)) = 200" by code_simp
  have h2: "status (fst (put_project id1 body_bad_github world1)) \<noteq> 200" by code_simp
  have b: "req_impact body_clear = Some (JStr '''')" "req_github body_clear = Some JNull"
    "req_live body_clear = None" "req_image body_clear = None"
    by (simp_all add: body_clear_def no_fields_def)
  from world1_id1 have a: "ObjectId_isValid id1"
    "findById (castObjectId id1) (docs world1) = Some (hd (docs world1))" by simp_all
  show ?thesis
    using a h1 h2 b put_nullable_fields [OF a, of body_clear]
      put_nullable_fields [OF a, of body_bad_github]
    by auto
qed

text \<open>
  C4 as stated covers every update request on an existing document. A request that
  supplies a github value the schema rejects is answered with 400, and the stored
  github value is not overwritten.
\<close>

theorem put_supplied_github_not_applied:
  "req_github body_bad_github = Some (JStr ''https://evil.com'') \<and>
   status (fst (put_project id1 body_bad_github world1)) = 400 \<and>
   map github (docs world1) = [Some ''https://github.com/me/repo''] \<and>
   map github (docs (snd (put_project id1 body_bad_github world1))) =
     [Some ''https://github.com/me/repo'']"
  by code_simp

section \<open>Identifier checks\<close>

text \<open>
  C5. For get, update and delete: an id that is not in the store's identifier format
  is answered with 400 and the store is untouched; a well-formed id that no document
  carries is answered with 404, the store again untouched; and 404 is answered only
  for a well-formed id whose lookup found nothing.
\<close>

theorem id_checked_before_lookup:
  "(\<not> ObjectId_isValid i \<longrightarrow>
      status (get_project i w) = 400 \<and>
      status (fst (put_project i b w)) = 400 \<and> snd (put_project i b w) = w \<and>
      status (fst (delete_project i w)) = 400 \<and> snd (delete_project i w) = w) \<and>
   (ObjectId_isValid i \<and> findById (castObjectId i) (docs w) = None \<longrightarrow>
      status (get_project i w) = 404 \<and>
      status (fst (put_project i b w)) = 404 \<and> snd (put_project i b w) = w \<and>
      status (fst (delete_project i w)) = 404 \<and> snd (delete_project i w) = w) \<and>
   (status (get_project i w) = 404 \<or> status (fst (put_project i b w)) = 404 \<or>
    status (fst (delete_project i w)) = 404 \<longrightarrow>
      ObjectId_isValid i \<and> findById (castObjectId i) (docs w) = None)"
proof (intro conjI impI)
  assume "status (get_project i w) = 404 \<or> status (fst (put_project i b w)) = 404 \<or>
    status (fst (delete_project i w)) = 404"
  then have "ObjectId_isValid i \<and> findById (castObjectId i) (docs w) = None"
    by (auto simp: get_status put_status delete_status split: if_splits option.splits)
  then show "ObjectId_isValid i" and "findById (castObjectId i) (docs w) = None" by simp_all
qed (simp_all add: get_status put_status delete_status put_invalid_id put_not_found
       delete_invalid_id delete_not_found failure_def)

theorem id_checked_before_lookup_witness:
  "(\<not> ObjectId_isValid ''not-an-id'' \<and>
      status (get_project ''not-an-id'' world1) = 400 \<and>
      status (fst (put_project ''not-an-id'' body_full world1)) = 400 \<and>
      snd (put_project ''not-an-id'' body_full world1) = world1 \<and>
      status (fst (delete_project ''not-an-id'' world1)) = 400 \<and>
      snd (delete_project ''not-an-id'' world1) = world1) \<and>
   (ObjectId_isValid id_absent \<and> findById (castObjectId id_absent) (docs world1) = None \<and>
      status (get_project id_absent world1) = 404 \<and>
      status (fst (put_project id_absent body_full world1)) = 404 \<and>
      snd (put_project id_absent body_full world1) = world1 \<and>
      status (fst (delete_project id_absent world1)) = 404 \<and>
      snd (delete_project id_absent world1) = world1)"
proof -
  have h1: "\<not> ObjectId_isValid ''not-an-id''" by code_simp
  have h2: "ObjectId_isValid id_absent \<and> findById (castObjectId id_absent) (docs world1) = None"
    by code_simp
  show ?thesis
    using h1 h2 id_checked_before_lookup [of "''not-an-id''" world1 body_full]
      id_checked_before_lookup [of id_absent world1 body_full]
    by blast
qed

section \<open>Invariants of stored documents\<close>

text \<open>
  C6. In every store that create, update and delete requests can produce, every
  document has a non-empty list of technologies, a category that is one of the five
  values of the enum, and an update time that is not before its creation time.
\<close>

theorem stored_document_invariants:
  "reachable w \<Longrightarrow> p \<in> set (docs w) \<Longrightarrow>
   technologies p \<noteq> [] \<and>
   (\<exists>c \<in> set categories. category p = Some c) \<and> length categories = 5 \<and>
   createdAt p \<le> updatedAt p"
proof -
  assume "reachable w" and "p \<in> set (docs w)"
  then have v: "valid_project p" and t: "createdAt p \<le> updatedAt p"
    using reachable_wf wf_worldD by blast+
  from v have "check_technologies p = None" and "check_category p = None"
    by (simp_all add: valid_project_iff)
  then have "technologies p \<noteq> []" and "\<exists>c \<in> set categories. category p = Some c"
    by (auto simp: check_technologies_def check_category_def split: option.splits if_splits)
  with t show ?thesis by (simp add: categories_def)
qed

theorem stored_document_invariants_witness:
  "reachable world1 \<and> hd (docs world1) \<in> set (docs world1) \<and>
   technologies (hd (docs world1)) \<noteq> [] \<and>
   (\<exists>c \<in> set categories. category (hd (docs world1)) = Some c) \<and>
   createdAt (hd (docs world1)) \<le> updatedAt (hd (docs world1))"
proof -
  have h: "hd (docs world1) \<in> set (docs world1)" by code_simp
  show ?thesis
    using reachable_world1 h stored_document_invariants [OF reachable_world1 h] by simp
qed

section \<open>The format of the github field on create\<close>

text \<open>
  C7. On a create request: a github string that is not empty and does not match
  \<^verbatim>\<open>^https?://(www\.)?github\.com/\<close> is answered with 400 and nothing is stored, and when
  the required fields are present the error list carries the GitHub URL message; a
  github string that matches the pattern raises no validation error under the github
  path; and a github value that is absent or falsy (the empty string, null) raises
  none either.
\<close>

theorem post_github_format:
  "(req_github b = Some (JStr g) \<and> g \<noteq> [] \<and> \<not> github_regex_test g \<longrightarrow>
      status (fst (post_projects b w)) = 400 \<and>
      docs (snd (post_projects b w)) = docs w \<and>
      (is_truthy (req_title b) \<and> is_truthy (req_description b) \<and>
       is_truthy (req_category b) \<and> is_truthy_list (req_technologies b) \<longrightarrow>
         (\<exists>es. errors (fst (post_projects b w)) = Some es \<and>
               ''Please provide a valid GitHub URL'' \<in> set es))) \<and>
   (req_github b = Some (JStr g) \<and> github_regex_test g \<longrightarrow>
      ''github'' \<notin> fst ` set (validate (new_Project b q))) \<and>
   (\<not> is_truthy (req_github b) \<longrightarrow>
      ''github'' \<notin> fst ` set (validate (new_Project b q)))"
proof (intro conjI impI)
  assume a: "req_github b = Some (JStr g) \<and> g \<noteq> [] \<and> \<not> github_regex_test g"
  let ?d = "new_Project b
    (blank_project (next_oid w) (fst (date_now w)) (fst (date_now (snd (date_now w)))))"
  have e: "(''github'', ''Please provide a valid GitHub URL'') \<in> set (validate ?d)"
    using a
    by (intro validate_entry_github)
       (simp add: new_Project_github or_null_def check_github_def)
  then have bad: "validate ?d \<noteq> []" by auto
  show s: "status (fst (post_projects b w)) = 400"
  proof (cases "is_truthy (req_title b) \<and> is_truthy (req_description b) \<and>
      is_truthy (req_category b) \<and> is_truthy_list (req_technologies b)")
    case True
    then show ?thesis
      by (simp add: post_rejected [OF _ _ _ _ refl refl bad] validation_error_def)
  next
    case False
    then show ?thesis by (auto simp: post_guard failure_def)
  qed
  then show "docs (snd (post_projects b w)) = docs w"
    by (simp add: post_docs_unless_201)
  assume "is_truthy (req_title b) \<and> is_truthy (req_description b) \<and>
       is_truthy (req_category b) \<and> is_truthy_list (req_technologies b)"
  then have "errors (fst (post_projects b w)) = Some (map snd (validate ?d))"
    by (simp add: post_rejected [OF _ _ _ _ refl refl bad] validation_error_def)
  moreover have "''Please provide a valid GitHub URL'' \<in> set (map snd (validate ?d))"
    using e by force
  ultimately show "\<exists>es. errors (fst (post_projects b w)) = Some es \<and>
      ''Please provide a valid GitHub URL'' \<in> set es"
    by simp
next
  assume "req_github b = Some (JStr g) \<and> github_regex_test g"
  then show "''github'' \<notin> fst ` set (validate (new_Project b q))"
    by (simp add: validate_keys_github new_Project_github or_null_def check_github_def)
next
  assume "\<not> is_truthy (req_github b)"
  then show "''github'' \<notin> fst ` set (validate (new_Project b q))"
    by (simp add: validate_keys_github new_Project_github or_null_def is_truthy_def
        check_github_def split: option.splits)
qed

theorem post_github_format_witness:
  "(req_github body_evil_github = Some (JStr ''https://evil.com'') \<and>
      \<not> github_regex_test ''https://evil.com'' \<and>
      status (fst (post_projects body_evil_github world0)) = 400 \<and>
      docs (snd (post_projects body_evil_github world0)) = docs world0 \<and>
      (\<exists>es. errors (fst (post_projects body_evil_github world0)) = Some es \<and>
            ''Please provide a valid GitHub URL'' \<in> set es)) \<and>
   (req_github body_full = Some (JStr ''https://github.com/me/repo'') \<and>
      github_regex_test ''https://github.com/me/repo'' \<and>
      ''github'' \<notin> fst ` set (validate (new_Project body_full (blank_project 1 1005 1008))) \<and>
      status (fst (post_projects body_full world0)) = 201) \<and>
   (\<not> is_truthy (req_github body_no_highlights) \<and>
      ''github'' \<notin> fst ` set (validate (new_Project body_no_highlights (blank_project 1 1005 1008))))"
proof -
  have h1: "req_github body_evil_github = Some (JStr ''https://evil.com'') \<and>
      ''https://evil.com'' \<noteq> [] \<and> \<not> github_regex_test ''https://evil.com'' \<and>
      is_truthy (req_title body_evil_github) \<and> is_truthy (req_description body_evil_github) \<and>
      is_truthy (req_category body_evil_github) \<and> is_truthy_list (req_technologies body_evil_github)"
    by code_simp
  have h2: "req_github body_full = Some (JStr ''https://github.com/me/repo'') \<and>
      github_regex_test ''https://github.com/me/repo'' \<and>
      status (fst (post_projects body_full world0)) = 201"
    by code_simp
  have h3: "\<not> is_truthy (req_github body_no_highlights)"
    by code_simp
  show ?thesis
    using h1 h2 h3
      post_github_format [of body_evil_github "''https://evil.com''" world0 "blank_project 1 1005 1008"]
      post_github_format [of body_full "''https://github.com/me/repo''" world0 "blank_project 1 1005 1008"]
      post_github_format [of body_no_highlights "''''" world0 "blank_project 1 1005 1008"]
    by blast
qed

section \<open>Listing\<close>

text \<open>
  C8. A list request is answered with 200 and the documents that match the category
  filter, each once. With \<^verbatim>\<open>sort=title\<close> they come in ascending order of title, the
  order of the character codes; with no sort parameter or any other value of it they
  come in descending order of creation time.
\<close>

theorem get_projects_order:
  "status (get_projects c s w) = 200 \<and>
   (\<exists>ps. data (get_projects c s w) = Docs ps \<and>
      mset ps = mset (case c of None \<Rightarrow> docs w
                      | Some x \<Rightarrow> if x = [] then docs w
                                  else filter (\<lambda>p. category p = Some x) (docs w)) \<and>
      (s = Some ''title'' \<longrightarrow> sorted (map title ps)) \<and>
      (s \<noteq> Some ''title'' \<longrightarrow> sorted_wrt (\<lambda>x y. x \<ge> y) (map createdAt ps)))"
proof -
  let ?found = "case c of None \<Rightarrow> docs w
     | Some x \<Rightarrow> if x = [] then docs w else filter (\<lambda>p. category p = Some x) (docs w)"
  let ?ps = "if s = Some ''title'' then sort_key title ?found else rev (sort_key createdAt ?found)"
  have r: "get_projects c s w = ok_list ?ps"
    by (simp add: get_projects_def)
  have "sorted_wrt (\<lambda>x y. x \<ge> y) (rev (map createdAt (sort_key createdAt ?found)))"
    using sorted_sort_key [of createdAt ?found] by (simp add: sorted_wrt_rev)
  then have "s \<noteq> Some ''title'' \<longrightarrow> sorted_wrt (\<lambda>x y. x \<ge> y) (map createdAt ?ps)"
    by (simp add: rev_map)
  moreover have "s = Some ''title'' \<longrightarrow> sorted (map title ?ps)"
    by simp
  moreover have "mset ?ps = mset ?found"
    by simp
  ultimately show ?thesis
    unfolding r by (simp add: ok_list_def)
qed

theorem get_projects_order_witness:
  "map title (docs world2) = [Some ''Face Mask Detector'', Some ''Weather Dashboard''] \<and>
   map createdAt (docs world2) = [1005, 1011] \<and>
   data (get_projects None (Some ''title'') world2) = Docs (docs world2) \<and>
   data (get_projects None None world2) = Docs (rev (docs world2)) \<and>
   data (get_projects None (Some ''oldest'') world2) = Docs (rev (docs world2)) \<and>
   (\<exists>ps. data (get_projects None (Some ''title'') world2) = Docs ps \<and> sorted (map title ps)) \<and>
   (\<exists>ps. data (get_projects None None world2) = Docs ps \<and>
      sorted_wrt (\<lambda>x y. x \<ge> y) (map createdAt ps))"
proof -
  have h: "map title (docs world2) = [Some ''Face Mask Detector'', Some ''Weather Dashboard''] \<and>
   map createdAt (docs world2) = [1005, 1011] \<and>
   data (get_projects None (Some ''title'') world2) = Docs (docs world2) \<and>
   data (get_projects None None world2) = Docs (rev (docs world2)) \<and>
   data (get_projects None (Some ''oldest'') world2) = Docs (rev (docs world2))"
    by code_simp
  show ?thesis
    using h get_projects_order [of None "Some ''title''" world2]
      get_projects_order [of None None world2]
    by auto
qed

section \<open>Deleting\<close>

text \<open>
  C9. Deleting a document that exists answers 200 with that document as the data, and
  a get of the same id on the store that results answers 404. Deleting under a
  well-formed id that no document carries answers 404, and under a malformed id 400.
\<close>

theorem delete_then_get:
  "(reachable w \<and> ObjectId_isValid i \<and> findById (castObjectId i) (docs w) = Some p \<longrightarrow>
      status (fst (delete_project i w)) = 200 \<and>
      data (fst (delete_project i w)) = Doc p \<and>
      status (get_project i (snd (delete_project i w))) = 404) \<and>
   (ObjectId_isValid i \<and> findById (castObjectId i) (docs w) = None \<longrightarrow>
      status (fst (delete_project i w)) = 404) \<and>
   (\<not> ObjectId_isValid i \<longrightarrow> status (fst (delete_project i w)) = 400)"
proof (intro conjI impI)
  assume a: "reachable w \<and> ObjectId_isValid i \<and> findById (castObjectId i) (docs w) = Some p"
  then have d: "distinct (map oid (docs w))"
    using reachable_wf wf_world_distinct by blast
  from a have eq: "delete_project i w =
     (ok_doc 200 (Some ''Project deleted successfully'') p,
      w\<lparr>docs := deleteOne (castObjectId i) (docs w)\<rparr>)"
    by (simp add: delete_found)
  show "status (fst (delete_project i w)) = 200" by (simp add: eq ok_doc_def)
  show "data (fst (delete_project i w)) = Doc p" by (simp add: eq ok_doc_def)
  show "status (get_project i (snd (delete_project i w))) = 404"
    using a by (simp add: eq get_project_def findById_deleteOne [OF d] failure_def)
qed (simp_all add: delete_not_found delete_invalid_id failure_def)

theorem delete_then_get_witness:
  "(reachable world1 \<and> ObjectId_isValid id1 \<and>
      findById (castObjectId id1) (docs world1) = Some (hd (docs world1)) \<and>
      status (fst (delete_project id1 world1)) = 200 \<and>
      data (fst (delete_project id1 world1)) = Doc (hd (docs world1)) \<and>
      status (get_project id1 (snd (delete_project id1 world1))) = 404) \<and>
   (ObjectId_isValid id_absent \<and> findById (castObjectId id_absent) (docs world1) = None \<and>
      status (fst (delete_project id_absent world1)) = 404) \<and>
   (\<not> ObjectId_isValid ''not-an-id'' \<and> status (fst (delete_project ''not-an-id'' world1)) = 400)"
proof -
  have h2: "ObjectId_isValid id_absent \<and> findById (castObjectId id_absent) (docs world1) = None"
    by code_simp
  have h3: "\<not> ObjectId_isValid ''not-an-id''" by code_simp
  show ?thesis
    using reachable_world1 world1_id1 h2 h3 delete_then_get [of world1 id1 "hd (docs world1)"]
      delete_then_get [of world1 id_absent "hd (docs world1)"]
      delete_then_get [of world1 "''not-an-id''" "hd (docs world1)"]
    by blast
qed

section \<open>Falsy required fields on update\<close>

text \<open>
  C10. Take a store that requests can produce, a document in it and an update request.
  For each of title, description, category and technologies: when the body's value
  for the field is falsy (the empty string, null, false, 0, or no value at all), the
  handler does not assign it, so the document stored under the id afterwards has the
  field as it was, and the validation of the update reports no error under that
  field's path.
\<close>

theorem put_falsy_field_ignored:
  assumes "reachable w" and "ObjectId_isValid i"
    and "findById (castObjectId i) (docs w) = Some p"
  shows "\<exists>p'. findById (castObjectId i) (docs (snd (put_project i b w))) = Some p' \<and>
     (\<not> is_truthy (req_title b) \<longrightarrow>
        title p' = title p \<and> ''title'' \<notin> fst ` set (validate (update_fields b p))) \<and>
     (\<not> is_truthy (req_description b) \<longrightarrow>
        description p' = description p \<and>
        ''description'' \<notin> fst ` set (validate (update_fields b p))) \<and>
     (\<not> is_truthy (req_category b) \<longrightarrow>
        category p' = category p \<and> ''category'' \<notin> fst ` set (validate (update_fields b p))) \<and>
     (\<not> is_truthy_list (req_technologies b) \<longrightarrow>
        technologies p' = technologies p \<and>
        ''technologies'' \<notin> fst ` set (validate (update_fields b p)))"
proof -
  let ?d = "update_fields b p"
  let ?p' = "if validate ?d = [] then ?d\<lparr>updatedAt := fst (date_now w)\<rparr> else p"
  have "p \<in> set (docs w)" using findById_Some [OF assms(3)] by simp
  then have "valid_project p"
    using reachable_wf [OF assms(1)] wf_worldD by blast
  then have checks: "check_title p = None" "check_description p = None"
    "check_category p = None" "check_technologies p = None"
    by (simp_all add: valid_project_iff)
  have stored: "findById (castObjectId i) (docs (snd (put_project i b w))) = Some ?p'"
    using assms(2,3) by (rule put_stored)
  have t: "\<not> is_truthy (req_title b) \<longrightarrow>
      title ?p' = title p \<and> ''title'' \<notin> fst ` set (validate ?d)"
    using checks(1) check_title_cong [of ?d p]
    by (simp add: update_fields_title_kept validate_keys_title)
  have d: "\<not> is_truthy (req_description b) \<longrightarrow>
      description ?p' = description p \<and> ''description'' \<notin> fst ` set (validate ?d)"
    using checks(2) check_description_cong [of ?d p]
    by (simp add: update_fields_description_kept validate_keys_description)
  have c: "\<not> is_truthy (req_category b) \<longrightarrow>
      category ?p' = category p \<and> ''category'' \<notin> fst ` set (validate ?d)"
    using checks(3) check_category_cong [of ?d p]
    by (simp add: update_fields_category_kept validate_keys_category)
  have g: "\<not> is_truthy_list (req_technologies b) \<longrightarrow>
      technologies ?p' = technologies p \<and> ''technologies'' \<notin> fst ` set (validate ?d)"
    using checks(4) check_technologies_cong [of ?d p]
    by (simp add: update_fields_technologies_kept validate_keys_technologies)
  show ?thesis using stored t d c g by blast
qed

theorem put_falsy_field_ignored_witness:
  "reachable world1 \<and> ObjectId_isValid id1 \<and>
   findById (castObjectId id1) (docs world1) = Some (hd (docs world1)) \<and>
   req_title body_blank_title = Some (JStr '''') \<and> \<not> is_truthy (req_title body_blank_title) \<and>
   (\<exists>p'. findById (castObjectId id1) (docs (snd (put_project id1 body_blank_title world1))) = Some p' \<and>
      title p' = title (hd (docs world1)) \<and>
      ''title'' \<notin> fst ` set (validate (update_fields body_blank_title (hd (docs world1)))))"
proof -
  have h: "req_title body_blank_title = Some (JStr '''') \<and> \<not> is_truthy (req_title body_blank_title)"
    by (simp add: body_blank_title_def is_truthy_def)
  show ?thesis
    using reachable_world1 world1_id1 h
      put_falsy_field_ignored [of world1 id1 "hd (docs world1)" body_blank_title]
    by blast
qed

end
